theory Spec2Isabelle
  imports Complex_Main
begin

section \<open>Data model\<close>

text \<open>
  Python floats are modelled as reals, so an equality that the program only reaches
  up to rounding is exact here. A Python dict is an association list in insertion
  order; lookups go through \<open>map_of\<close>, which is the dict's lookup when the keys are
  distinct.
\<close>

type_synonym 'v dict = "(string \<times> 'v) list"

definition dict_get :: "'v dict \<Rightarrow> string \<Rightarrow> 'v \<Rightarrow> 'v" where
  "dict_get d k dflt = (case map_of d k of None \<Rightarrow> dflt | Some v \<Rightarrow> v)"

definition dict_values :: "'v dict \<Rightarrow> 'v list" where
  "dict_values d = map snd d"

definition dict_keys :: "'v dict \<Rightarrow> string list" where
  "dict_keys d = map fst d"

text \<open>
  A \<open>datetime\<close> is the number of microseconds since 2025-01-01 00:00:00, the date
  every trajectory starts at. \<open>(d1 - d2).days\<close> is the floor of the difference in
  days, which is what \<open>div\<close> on \<open>int\<close> computes.
\<close>

type_synonym datetime = int

definition microseconds_per_day :: int where
  "microseconds_per_day = 86400000000"

definition timedelta_days :: "int \<Rightarrow> int" where
  "timedelta_days delta = delta div microseconds_per_day"

definition days :: "int \<Rightarrow> int" where
  "days n = n * microseconds_per_day"

section \<open>rebalance\_strategies.py\<close>

record RebalanceStrategy =
  target_allocation :: "real dict"
  transaction_cost :: real
  last_rebalance_date :: "datetime option"

record TimeBasedRebalance = RebalanceStrategy +
  frequency :: string
  frequency_days :: "int dict"

record ThresholdBasedRebalance = RebalanceStrategy +
  threshold :: real

text \<open>The two concrete classes the factory can build; the base class is never instantiated.\<close>

datatype strategy =
  TimeBased TimeBasedRebalance
| ThresholdBased ThresholdBasedRebalance

definition TimeBasedRebalance_init :: "real dict \<Rightarrow> string \<Rightarrow> real \<Rightarrow> TimeBasedRebalance" where
  "TimeBasedRebalance_init target freq cost =
     \<lparr> target_allocation = target, transaction_cost = cost, last_rebalance_date = None,
       frequency = freq,
       frequency_days = [(''monthly'', 30), (''quarterly'', 90), (''annual'', 365)] \<rparr>"

definition ThresholdBasedRebalance_init :: "real dict \<Rightarrow> real \<Rightarrow> real \<Rightarrow> ThresholdBasedRebalance" where
  "ThresholdBasedRebalance_init target th cost =
     \<lparr> target_allocation = target, transaction_cost = cost, last_rebalance_date = None,
       threshold = th \<rparr>"

text \<open>
  \<open>calculate_rebalance_cost\<close>: the loop adds up the absolute weight changes over the
  target allocation's assets.
\<close>

definition total_change_loop :: "real dict \<Rightarrow> real dict \<Rightarrow> real" where
  "total_change_loop target current =
     foldl (\<lambda>total_change (asset, t). total_change + \<bar>t - dict_get current asset 0\<bar>) 0 target"

definition calculate_rebalance_cost ::
  "real \<Rightarrow> real dict \<Rightarrow> real dict \<Rightarrow> real \<Rightarrow> real" where
  "calculate_rebalance_cost self_transaction_cost target current pv =
     pv * (total_change_loop target current / 2) * self_transaction_cost"

definition current_allocation_of :: "real dict \<Rightarrow> real \<Rightarrow> real dict" where
  "current_allocation_of vals pv =
     map (\<lambda>(asset, v). (asset, if pv > 0 then v / pv else 0)) vals"

definition rebalance ::
  "real dict \<Rightarrow> real \<Rightarrow> real dict \<Rightarrow> real \<Rightarrow> real dict \<times> real" where
  "rebalance self_target self_transaction_cost current_values pv =
     (let current_allocation = current_allocation_of current_values pv;
          cost = calculate_rebalance_cost self_transaction_cost self_target current_allocation pv;
          remaining_value = pv - cost;
          new_values = map (\<lambda>(asset, t). (asset, remaining_value * t)) self_target
      in (new_values, cost))"

definition TimeBased_should_rebalance ::
  "TimeBasedRebalance \<Rightarrow> real dict \<Rightarrow> datetime \<Rightarrow> real \<Rightarrow> bool \<times> TimeBasedRebalance" where
  "TimeBased_should_rebalance self current_allocation date pv =
     (case last_rebalance_date self of
        None \<Rightarrow> (True, self\<lparr>last_rebalance_date := Some date\<rparr>)
      | Some last_date \<Rightarrow>
          (let days_since_rebalance = timedelta_days (date - last_date)
           in if days_since_rebalance \<ge> dict_get (frequency_days self) (frequency self) 365
              then (True, self\<lparr>last_rebalance_date := Some date\<rparr>)
              else (False, self)))"

fun threshold_loop :: "real \<Rightarrow> real dict \<Rightarrow> real dict \<Rightarrow> bool" where
  "threshold_loop th current_allocation [] = False"
| "threshold_loop th current_allocation ((asset, t) # rest) =
     (let current = dict_get current_allocation asset 0;
          deviation = \<bar>current - t\<bar>
      in if deviation > th then True else threshold_loop th current_allocation rest)"

definition ThresholdBased_should_rebalance ::
  "ThresholdBasedRebalance \<Rightarrow> real dict \<Rightarrow> datetime \<Rightarrow> real \<Rightarrow> bool" where
  "ThresholdBased_should_rebalance self current_allocation date pv =
     threshold_loop (threshold self) current_allocation (target_allocation self)"

text \<open>Dynamic dispatch on the strategy object; the object is returned as the call left it.\<close>

fun should_rebalance :: "strategy \<Rightarrow> real dict \<Rightarrow> datetime \<Rightarrow> real \<Rightarrow> bool \<times> strategy" where
  "should_rebalance (TimeBased s) ca date pv =
     (let (b, s') = TimeBased_should_rebalance s ca date pv in (b, TimeBased s'))"
| "should_rebalance (ThresholdBased s) ca date pv =
     (ThresholdBased_should_rebalance s ca date pv, ThresholdBased s)"

fun strategy_target :: "strategy \<Rightarrow> real dict" where
  "strategy_target (TimeBased s) = target_allocation s"
| "strategy_target (ThresholdBased s) = target_allocation s"

fun strategy_cost :: "strategy \<Rightarrow> real" where
  "strategy_cost (TimeBased s) = transaction_cost s"
| "strategy_cost (ThresholdBased s) = transaction_cost s"

fun strategy_last_date :: "strategy \<Rightarrow> datetime option" where
  "strategy_last_date (TimeBased s) = last_rebalance_date s"
| "strategy_last_date (ThresholdBased s) = last_rebalance_date s"

definition strategy_rebalance :: "strategy \<Rightarrow> real dict \<Rightarrow> real \<Rightarrow> real dict \<times> real" where
  "strategy_rebalance s current_values pv =
     rebalance (strategy_target s) (strategy_cost s) current_values pv"

datatype error = ZeroDivision | ComplexPower | ValueError

record rebalance_config =
  rebalance_type :: string
  rebalance_frequency :: "string option"
  rebalance_threshold :: "real option"

record portfolio_config =
  allocation :: "real dict"
  rebalance_cfg :: rebalance_config

definition create_rebalance_strategy :: "portfolio_config \<Rightarrow> real \<Rightarrow> error + strategy" where
  "create_rebalance_strategy cfg cost =
     (let target = allocation cfg; rc = rebalance_cfg cfg
      in if rebalance_type rc = ''time''
         then Inr (TimeBased (TimeBasedRebalance_init target
                 (case rebalance_frequency rc of None \<Rightarrow> ''annual'' | Some f \<Rightarrow> f) cost))
         else if rebalance_type rc = ''threshold''
         then Inr (ThresholdBased (ThresholdBasedRebalance_init target
                 (case rebalance_threshold rc of None \<Rightarrow> 5 / 100 | Some t \<Rightarrow> t) cost))
         else Inl ValueError)"

section \<open>simulation.py: one trajectory\<close>

text \<open>
  A division whose divisor is zero is an arithmetic fault: a \<open>ZeroDivisionError\<close> on
  Python floats, and \<open>nan\<close> or \<open>inf\<close> (with a warning) on numpy floats, which is what
  the values are once \<open>np.exp\<close> has been applied; there the source carries on with the
  non-finite values. The model has no non-finite values and does not follow them: it
  stops at the division with \<open>Inl ZeroDivision\<close>, which reads as ``a division by zero is
  performed here'', not as ``the source raises here''. A result \<open>Inr\<close> is a trajectory
  on which, in exact arithmetic, no division by zero is performed. A negative base
  under a fractional power leaves the floats (Python returns a complex number); the
  model stops with \<open>Inl ComplexPower\<close>.
\<close>

record sim_params =
  initial_capital :: real
  withdrawal_amount :: real
  inflation_rate :: real
  apply_inflation :: bool
  periodic_contribution :: real
  contribution_enabled :: bool
  thirteenth_payment_months :: "int list option"
  thirteenth_payment_amount :: real
  thirteenth_payment_enabled :: bool

record history_row =
  h_month :: nat
  h_portfolio_value :: real
  h_withdrawal :: real
  h_base_withdrawal :: real
  h_contribution :: real
  h_total_withdrawals :: real
  h_total_contributions :: real
  h_total_rebalance_costs :: real
  h_asset_values :: "real dict"

text \<open>
  The local variables of \<open>simulate_portfolio_path\<close> that live across the months, the
  strategy object the calls mutate, and \<open>broke\<close>: the loop was left by \<open>break\<close>.
  \<open>new_asset_values\<close> is not bound before the first month; it starts as \<open>[]\<close>.
\<close>

record path_state =
  portfolio_value :: real
  asset_values :: "real dict"
  new_asset_values :: "real dict"
  history :: "history_row list"
  withdrawal :: real
  total_withdrawals :: real
  total_contributions :: real
  total_rebalance_costs :: real
  months_survived :: nat
  current_date :: datetime
  strategy_obj :: strategy
  broke :: bool

record path_metrics =
  final_value :: real
  m_total_withdrawals :: real
  m_total_contributions :: real
  net_flow :: real
  m_total_rebalance_costs :: real
  m_months_survived :: nat
  survived_full_period :: bool
  total_return :: real

definition inflation_step :: "sim_params \<Rightarrow> nat \<Rightarrow> real \<Rightarrow> error + real" where
  "inflation_step p month w =
     (if apply_inflation p \<and> month > 0
      then (if 1 + inflation_rate p < 0 then Inl ComplexPower
            else (let monthly_inflation = (1 + inflation_rate p) powr (1 / 12) - 1
                  in Inr (w * (1 + monthly_inflation))))
      else Inr w)"

definition apply_returns :: "real dict \<Rightarrow> real dict \<Rightarrow> real dict" where
  "apply_returns vals month_returns =
     map (\<lambda>(asset, v). (asset, case map_of month_returns asset of
                                   Some monthly_return \<Rightarrow> v * exp monthly_return
                                 | None \<Rightarrow> v)) vals"

text \<open>
  The contribution step returns \<open>contribution_this_month\<close>, the new total and the new
  per-asset values. The divisor is written as the source writes it,
  \<open>portfolio_value - contribution_this_month\<close> after the addition; the division is
  performed once per asset, so an empty portfolio divides nothing. Over the reals this
  divisor is the total before the addition; over the floats it is that total only up
  to the rounding of the addition and the subtraction (\<open>apply_contribution_rounded\<close>
  below keeps the two apart).
\<close>

definition apply_contribution ::
  "sim_params \<Rightarrow> real \<Rightarrow> real dict \<Rightarrow> error + (real \<times> real \<times> real dict)" where
  "apply_contribution p pv nav =
     (if contribution_enabled p
      then (let contribution_this_month = periodic_contribution p
            in if contribution_this_month \<noteq> 0
               then (let pv' = pv + contribution_this_month
                     in if pv' > 0
                        then (if nav \<noteq> [] \<and> pv' - contribution_this_month = 0
                              then Inl ZeroDivision
                              else Inr (contribution_this_month, pv',
                                     map (\<lambda>(asset, v).
                                       (asset, v / (pv' - contribution_this_month) * pv')) nav))
                        else Inr (contribution_this_month, pv', nav))
               else Inr (contribution_this_month, pv, nav))
      else Inr (0, pv, nav))"

text \<open>
  The same step with the four float operations as parameters, for any rounding they
  may do: here \<open>(pv + c) - c\<close> need not be \<open>pv\<close>, and it can be 0 where \<open>pv\<close> is not.
  Comparisons are exact on floats. \<open>exact_ops\<close> are the operations of the reals.
\<close>

record float_ops =
  fl_add :: "real \<Rightarrow> real \<Rightarrow> real"
  fl_sub :: "real \<Rightarrow> real \<Rightarrow> real"
  fl_mul :: "real \<Rightarrow> real \<Rightarrow> real"
  fl_div :: "real \<Rightarrow> real \<Rightarrow> real"


definition apply_contribution_rounded ::
  "float_ops \<Rightarrow> sim_params \<Rightarrow> real \<Rightarrow> real dict \<Rightarrow> error + (real \<times> real \<times> real dict)" where
  "apply_contribution_rounded fl p pv nav =
     (if contribution_enabled p
      then (let contribution_this_month = periodic_contribution p
            in if contribution_this_month \<noteq> 0
               then (let pv' = fl_add fl pv contribution_this_month
                     in if pv' > 0
                        then (if nav \<noteq> [] \<and> fl_sub fl pv' contribution_this_month = 0
                              then Inl ZeroDivision
                              else Inr (contribution_this_month, pv',
                                     map (\<lambda>(asset, v).
                                       (asset, fl_mul fl
                                          (fl_div fl v (fl_sub fl pv' contribution_this_month))
                                          pv')) nav))
                        else Inr (contribution_this_month, pv', nav))
               else Inr (contribution_this_month, pv, nav))
      else Inr (0, pv, nav))"

definition thirteenth_payment_months_0indexed :: "sim_params \<Rightarrow> int list" where
  "thirteenth_payment_months_0indexed p =
     map (\<lambda>m. m - 1) (case thirteenth_payment_months p of None \<Rightarrow> [] | Some ms \<Rightarrow> ms)"

definition month_withdrawal :: "sim_params \<Rightarrow> nat \<Rightarrow> real \<Rightarrow> error + real" where
  "month_withdrawal p month w =
     (if thirteenth_payment_enabled p \<and> int month \<in> set (thirteenth_payment_months_0indexed p)
      then (if apply_inflation p \<and> month > 0
            then (if 1 + inflation_rate p < 0 then Inl ComplexPower
                  else Inr (w + thirteenth_payment_amount p *
                              ((1 + inflation_rate p) powr ((real month + 1) / 12))))
            else Inr (w + thirteenth_payment_amount p))
      else Inr w)"

text \<open>
  The proration of the withdrawal, called with the total after the subtraction: the
  divisor \<open>portfolio_value + monthly_withdrawal\<close> is the total before it. At a zero
  divisor the source, on numpy floats, computes a non-finite factor and multiplies
  every asset's value by it; the model stops (see above).
\<close>

definition prorate_withdrawal :: "real \<Rightarrow> real \<Rightarrow> real dict \<Rightarrow> error + real dict" where
  "prorate_withdrawal pv monthly_withdrawal nav =
     (if nav \<noteq> [] \<and> pv + monthly_withdrawal = 0 then Inl ZeroDivision
      else Inr (map (\<lambda>(asset, v). (asset, v * (1 - monthly_withdrawal / (pv + monthly_withdrawal)))) nav))"

definition history_entry ::
  "real dict \<Rightarrow> nat \<Rightarrow> real \<Rightarrow> real \<Rightarrow> real \<Rightarrow> real \<Rightarrow> real \<Rightarrow> real \<Rightarrow> real \<Rightarrow> real dict
     \<Rightarrow> history_row" where
  "history_entry alloc month pv monthly_withdrawal w c tw tc trc nav =
     \<lparr> h_month = month + 1, h_portfolio_value = pv, h_withdrawal = monthly_withdrawal,
       h_base_withdrawal = w, h_contribution = c, h_total_withdrawals = tw,
       h_total_contributions = tc, h_total_rebalance_costs = trc,
       h_asset_values = map (\<lambda>asset. (asset @ ''_value'', dict_get nav asset 0)) (dict_keys alloc) \<rparr>"

text \<open>
  One pass of the \<open>for month in range(n_months)\<close> body. \<open>total_contributions\<close> is
  increased by \<open>contribution_this_month\<close>, which is 0 exactly when the source skips the
  addition.
\<close>

definition month_body ::
  "sim_params \<Rightarrow> real dict \<Rightarrow> real dict \<Rightarrow> nat \<Rightarrow> path_state \<Rightarrow> error + path_state" where
  "month_body p alloc month_returns month s =
     (case inflation_step p month (withdrawal s) of
        Inl e \<Rightarrow> Inl e
      | Inr w \<Rightarrow>
     (case apply_contribution p (sum_list (dict_values (apply_returns (asset_values s) month_returns)))
             (apply_returns (asset_values s) month_returns) of
        Inl e \<Rightarrow> Inl e
      | Inr (c, pv, nav) \<Rightarrow>
     (case month_withdrawal p month w of
        Inl e \<Rightarrow> Inl e
      | Inr monthly_withdrawal \<Rightarrow>
     (if pv \<ge> monthly_withdrawal
      then (case prorate_withdrawal (pv - monthly_withdrawal) monthly_withdrawal nav of
              Inl e \<Rightarrow> Inl e
            | Inr nav' \<Rightarrow>
               (let pv' = pv - monthly_withdrawal;
                    tw = total_withdrawals s + monthly_withdrawal;
                    tc = total_contributions s + c;
                    current_allocation = current_allocation_of nav' pv';
                    (due, strat) = should_rebalance (strategy_obj s) current_allocation
                                     (current_date s) pv';
                    (nav'', rebalance_cost) =
                       (if due then strategy_rebalance strat nav' pv' else (nav', 0));
                    pv'' = pv' - rebalance_cost;
                    trc = total_rebalance_costs s + rebalance_cost
                in Inr (s\<lparr> portfolio_value := pv'', asset_values := nav'',
                           new_asset_values := nav'',
                           history := history s @
                             [history_entry alloc month pv'' monthly_withdrawal w c tw tc trc nav''],
                           withdrawal := w, total_withdrawals := tw, total_contributions := tc,
                           total_rebalance_costs := trc,
                           current_date := current_date s + days 30, strategy_obj := strat \<rparr>)))
      else Inr (s\<lparr> portfolio_value := 0,
                    new_asset_values := map (\<lambda>(asset, v). (asset, 0)) nav,
                    withdrawal := w, total_contributions := total_contributions s + c,
                    months_survived := month, broke := True \<rparr>)))))"

text \<open>
  \<open>months_loop p alloc rows k s\<close> is the state after the first \<open>k\<close> passes of the loop
  over \<open>range(n_months)\<close>, started in \<open>s\<close>: a pass after \<open>break\<close> does nothing, and a
  fault ends the run.
\<close>

primrec months_loop ::
  "sim_params \<Rightarrow> real dict \<Rightarrow> real dict list \<Rightarrow> nat \<Rightarrow> path_state \<Rightarrow> error + path_state" where
  "months_loop p alloc rows 0 s = Inr s"
| "months_loop p alloc rows (Suc month) s =
     (case months_loop p alloc rows month s of
        Inl e \<Rightarrow> Inl e
      | Inr s' \<Rightarrow> if broke s' then Inr s' else month_body p alloc (rows ! month) month s')"

definition initial_state :: "sim_params \<Rightarrow> real dict \<Rightarrow> nat \<Rightarrow> strategy \<Rightarrow> path_state" where
  "initial_state p alloc n_months strat =
     \<lparr> portfolio_value = initial_capital p,
       asset_values = map (\<lambda>(asset, weight). (asset, initial_capital p * weight)) alloc,
       new_asset_values = [],
       history = [],
       withdrawal = withdrawal_amount p,
       total_withdrawals = 0, total_contributions = 0, total_rebalance_costs = 0,
       months_survived = n_months,
       current_date = 0,
       strategy_obj = strat,
       broke = False \<rparr>"

definition metrics_of :: "sim_params \<Rightarrow> nat \<Rightarrow> path_state \<Rightarrow> path_metrics" where
  "metrics_of p n_months s =
     \<lparr> final_value = portfolio_value s,
       m_total_withdrawals = total_withdrawals s,
       m_total_contributions = total_contributions s,
       net_flow = total_contributions s - total_withdrawals s,
       m_total_rebalance_costs = total_rebalance_costs s,
       m_months_survived = months_survived s,
       survived_full_period = (months_survived s = n_months),
       total_return = (if initial_capital p > 0
                       then (portfolio_value s - initial_capital p) / initial_capital p else 0) \<rparr>"

text \<open>
  \<open>monthly_returns\<close> is the list of the data frame's rows, each a dict from asset to
  log-return. \<open>path_final_state\<close> is the state the loop ends in;
  \<open>simulate_portfolio_path\<close> returns what the source returns, and the strategy object as
  the trajectory left it.
\<close>

definition path_final_state ::
  "sim_params \<Rightarrow> portfolio_config \<Rightarrow> strategy \<Rightarrow> real dict list \<Rightarrow> error + path_state" where
  "path_final_state p cfg strat monthly_returns =
     months_loop p (allocation cfg) monthly_returns (length monthly_returns)
       (initial_state p (allocation cfg) (length monthly_returns) strat)"

definition simulate_portfolio_path ::
  "sim_params \<Rightarrow> portfolio_config \<Rightarrow> strategy \<Rightarrow> real dict list
     \<Rightarrow> error + (history_row list \<times> path_metrics \<times> strategy)" where
  "simulate_portfolio_path p cfg strat monthly_returns =
     (case path_final_state p cfg strat monthly_returns of
        Inl e \<Rightarrow> Inl e
      | Inr s \<Rightarrow> Inr (history s, metrics_of p (length monthly_returns) s, strategy_obj s))"

section \<open>simulation.py: the Monte Carlo batch\<close>

text \<open>
  numpy's global random generator is a parameter: \<open>np_seed\<close> is the generator state
  \<open>np.random.seed\<close> installs, \<open>np_normal mean std n g\<close> the draws of
  \<open>np.random.normal(mean, std, n)\<close> in state \<open>g\<close> (as a sequence, of which the first
  \<open>n\<close> are taken) and the state it leaves. numpy rejects a seed outside
  \<open>0 .. 2^32 - 1\<close> and a negative scale with a \<open>ValueError\<close>.
\<close>

record 'g np_random =
  np_seed :: "int \<Rightarrow> 'g"
  np_normal :: "real \<Rightarrow> real \<Rightarrow> nat \<Rightarrow> 'g \<Rightarrow> (nat \<Rightarrow> real) \<times> 'g"

record asset_stat =
  mean_return :: real
  std_dev :: real

definition seed_generator :: "'g np_random \<Rightarrow> int option \<Rightarrow> 'g \<Rightarrow> error + 'g" where
  "seed_generator rng random_seed g =
     (case random_seed of
        None \<Rightarrow> Inr g
      | Some sd \<Rightarrow> if 0 \<le> sd \<and> sd < 2 ^ 32 then Inr (np_seed rng sd) else Inl ValueError)"

fun columns_loop ::
  "'g np_random \<Rightarrow> nat \<Rightarrow> asset_stat dict \<Rightarrow> 'g \<Rightarrow> error + (real list dict \<times> 'g)" where
  "columns_loop rng n_months [] g = Inr ([], g)"
| "columns_loop rng n_months ((asset, stats) # rest) g =
     (let mean_annual = (if asset = ''cash'' then 2 / 100 else mean_return stats);
          std_annual = (if asset = ''cash'' then 1 / 1000 else std_dev stats);
          mean_monthly = mean_annual / 12;
          std_monthly = std_annual / sqrt 12
      in if std_monthly < 0 then Inl ValueError
         else (case np_normal rng mean_monthly std_monthly n_months g of
                 (log_returns, g') \<Rightarrow>
                   (case columns_loop rng n_months rest g' of
                      Inl e \<Rightarrow> Inl e
                    | Inr (cols, g'') \<Rightarrow> Inr ((asset, map log_returns [0..<n_months]) # cols, g''))))"

text \<open>The rows of \<open>pd.DataFrame(monthly_returns)\<close>; a frame without columns has no rows.\<close>

definition dataframe_rows :: "real list dict \<Rightarrow> nat \<Rightarrow> real dict list" where
  "dataframe_rows cols n_months =
     (if cols = [] then []
      else map (\<lambda>m. map (\<lambda>(asset, col). (asset, col ! m)) cols) [0..<n_months])"

definition generate_monthly_returns ::
  "'g np_random \<Rightarrow> asset_stat dict \<Rightarrow> nat \<Rightarrow> int option \<Rightarrow> 'g \<Rightarrow> error + (real dict list \<times> 'g)" where
  "generate_monthly_returns rng asset_stats n_months random_seed g =
     (case seed_generator rng random_seed g of
        Inl e \<Rightarrow> Inl e
      | Inr g0 \<Rightarrow>
          (case columns_loop rng n_months asset_stats g0 of
             Inl e \<Rightarrow> Inl e
           | Inr (cols, g1) \<Rightarrow> Inr (dataframe_rows cols n_months, g1)))"

text \<open>
  \<open>random_seed + i if random_seed else None\<close>: the condition is the truth value of
  \<open>random_seed\<close>, which is false for \<open>None\<close> and for \<open>0\<close>.
\<close>

definition iteration_seed :: "int option \<Rightarrow> nat \<Rightarrow> int option" where
  "iteration_seed random_seed i =
     (case random_seed of
        None \<Rightarrow> None
      | Some b \<Rightarrow> if b \<noteq> 0 then Some (b + int i) else None)"

text \<open>
  The state of the batch loop: the two result lists, the one strategy object that
  \<open>monte_carlo_simulation\<close> received, and the state of the global generator.
\<close>

record 'g mc_state =
  all_histories :: "(nat \<times> history_row list) list"
  all_metrics :: "path_metrics list"
  rebalance_strategy :: strategy
  generator :: 'g

record mc_params =
  portfolio :: portfolio_config
  n_months :: nat
  sim :: sim_params
  random_seed :: "int option"

definition mc_body ::
  "'g np_random \<Rightarrow> mc_params \<Rightarrow> asset_stat dict \<Rightarrow> nat \<Rightarrow> 'g mc_state \<Rightarrow> error + 'g mc_state" where
  "mc_body rng mp asset_stats i st =
     (case generate_monthly_returns rng asset_stats (n_months mp)
             (iteration_seed (random_seed mp) i) (generator st) of
        Inl e \<Rightarrow> Inl e
      | Inr (monthly_returns, g') \<Rightarrow>
          (case simulate_portfolio_path (sim mp) (portfolio mp) (rebalance_strategy st)
                  monthly_returns of
             Inl e \<Rightarrow> Inl e
           | Inr (hist, metrics, strat') \<Rightarrow>
               Inr (st\<lparr> all_histories := all_histories st @ [(i + 1, hist)],
                         all_metrics := all_metrics st @ [metrics],
                         rebalance_strategy := strat',
                         generator := g' \<rparr>)))"

text \<open>
  \<open>mc_loop rng mp stats k st\<close> is the state after the first \<open>k\<close> passes of the loop over
  \<open>range(n_iterations)\<close>, that is the state in which iteration \<open>k\<close> starts.
\<close>

primrec mc_loop ::
  "'g np_random \<Rightarrow> mc_params \<Rightarrow> asset_stat dict \<Rightarrow> nat \<Rightarrow> 'g mc_state \<Rightarrow> error + 'g mc_state" where
  "mc_loop rng mp asset_stats 0 st = Inr st"
| "mc_loop rng mp asset_stats (Suc i) st =
     (case mc_loop rng mp asset_stats i st of
        Inl e \<Rightarrow> Inl e
      | Inr st' \<Rightarrow> mc_body rng mp asset_stats i st')"

definition with_cash :: "real dict \<Rightarrow> asset_stat dict \<Rightarrow> asset_stat dict" where
  "with_cash alloc asset_stats =
     (if ''cash'' \<in> set (dict_keys alloc) \<and> dict_get alloc ''cash'' 0 > 0
         \<and> ''cash'' \<notin> set (dict_keys asset_stats)
      then asset_stats @ [(''cash'', \<lparr> mean_return = 2 / 100, std_dev = 1 / 1000 \<rparr>)]
      else asset_stats)"

definition mc_start :: "strategy \<Rightarrow> 'g \<Rightarrow> 'g mc_state" where
  "mc_start strat g =
     \<lparr> all_histories = [], all_metrics = [], rebalance_strategy = strat, generator = g \<rparr>"

definition monte_carlo_state ::
  "'g np_random \<Rightarrow> mc_params \<Rightarrow> asset_stat dict \<Rightarrow> strategy \<Rightarrow> 'g \<Rightarrow> nat \<Rightarrow> error + 'g mc_state" where
  "monte_carlo_state rng mp asset_stats strat g k =
     mc_loop rng mp (with_cash (allocation (portfolio mp)) asset_stats) k (mc_start strat g)"

definition monte_carlo_simulation ::
  "'g np_random \<Rightarrow> mc_params \<Rightarrow> asset_stat dict \<Rightarrow> strategy \<Rightarrow> nat \<Rightarrow> 'g
     \<Rightarrow> error + ((nat \<times> history_row list) list \<times> path_metrics list)" where
  "monte_carlo_simulation rng mp asset_stats strat n_iterations g =
     (case monte_carlo_state rng mp asset_stats strat g n_iterations of
        Inl e \<Rightarrow> Inl e
      | Inr st \<Rightarrow> Inr (all_histories st, all_metrics st))"

section \<open>Invariants and example inputs\<close>

text \<open>
  The invariant of the monthly loop after \<open>k\<close> passes: a live trajectory tracks the sum
  of its asset values, a ruined one has value 0, zeroed assets, and one history row per
  month it survived.
\<close>

definition path_inv :: "nat \<Rightarrow> path_state \<Rightarrow> bool" where
  "path_inv k s \<longleftrightarrow>
     0 \<le> withdrawal s
   \<and> sum_list (dict_values (strategy_target (strategy_obj s))) = 1
   \<and> (if broke s
      then portfolio_value s = 0
         \<and> (\<forall>v \<in> set (dict_values (new_asset_values s)). v = 0)
         \<and> months_survived s < k
         \<and> length (history s) = months_survived s
      else portfolio_value s = sum_list (dict_values (asset_values s))
         \<and> asset_values s \<noteq> []
         \<and> length (history s) = k
         \<and> (0 < k \<longrightarrow> new_asset_values s = asset_values s))"

text \<open>
  The ruin example: capital 100000, 2000 withdrawn per month, no inflation adjustment,
  no contributions, no extra withdrawals, 60 months of zero log-returns, allocation
  stocks 0.6 / bonds 0.4.
\<close>

definition ruin_params :: sim_params where
  "ruin_params =
     \<lparr> initial_capital = 100000, withdrawal_amount = 2000, inflation_rate = 2 / 100,
       apply_inflation = False, periodic_contribution = 0, contribution_enabled = False,
       thirteenth_payment_months = None, thirteenth_payment_amount = 0,
       thirteenth_payment_enabled = False \<rparr>"

definition ruin_allocation :: "real dict" where
  "ruin_allocation = [(''stocks'', 6 / 10), (''bonds'', 4 / 10)]"

definition ruin_returns :: "real dict list" where
  "ruin_returns = replicate 60 [(''stocks'', 0), (''bonds'', 0)]"

definition ruin_shape :: "real \<Rightarrow> path_state \<Rightarrow> bool" where
  "ruin_shape P s \<longleftrightarrow>
     \<not> broke s \<and> portfolio_value s = P
   \<and> asset_values s = [(''stocks'', P * (6 / 10)), (''bonds'', P * (4 / 10))]
   \<and> withdrawal s = 2000 \<and> months_survived s = 60
   \<and> strategy_target (strategy_obj s) = ruin_allocation
   \<and> strategy_cost (strategy_obj s) = 0"

text \<open>A small trajectory that is ruined in its second month, and one with contributions.\<close>

definition short_params :: sim_params where
  "short_params =
     \<lparr> initial_capital = 3000, withdrawal_amount = 2000, inflation_rate = 2 / 100,
       apply_inflation = False, periodic_contribution = 0, contribution_enabled = False,
       thirteenth_payment_months = None, thirteenth_payment_amount = 0,
       thirteenth_payment_enabled = False \<rparr>"

definition contributing_params :: sim_params where
  "contributing_params =
     \<lparr> initial_capital = 900, withdrawal_amount = 1000, inflation_rate = 0,
       apply_inflation = False, periodic_contribution = 100, contribution_enabled = True,
       thirteenth_payment_months = None, thirteenth_payment_amount = 0,
       thirteenth_payment_enabled = False \<rparr>"

definition taxed_params :: sim_params where
  "taxed_params =
     \<lparr> initial_capital = 1000, withdrawal_amount = 0, inflation_rate = 0,
       apply_inflation = False, periodic_contribution = - 1000, contribution_enabled = True,
       thirteenth_payment_months = None, thirteenth_payment_amount = 0,
       thirteenth_payment_enabled = False \<rparr>"

definition levy_params :: sim_params where
  "levy_params =
     \<lparr> initial_capital = 2000, withdrawal_amount = 0, inflation_rate = 0,
       apply_inflation = False, periodic_contribution = - 1000, contribution_enabled = True,
       thirteenth_payment_months = None, thirteenth_payment_amount = 0,
       thirteenth_payment_enabled = False \<rparr>"

text \<open>
  A coarse rounding, of sums and differences to the integer below, standing in for the
  floats' rounding to 53 bits: it absorbs a total that is small against the amount
  added to it.
\<close>

definition integer_grid_ops :: float_ops where
  "integer_grid_ops =
     \<lparr> fl_add = (\<lambda>x y. of_int \<lfloor>x + y\<rfloor>), fl_sub = (\<lambda>x y. of_int \<lfloor>x - y\<rfloor>),
       fl_mul = (*), fl_div = (/) \<rparr>"

definition even_allocation :: "real dict" where
  "even_allocation = [(''stocks'', 1 / 2), (''bonds'', 1 / 2)]"

definition even_config :: portfolio_config where
  "even_config =
     \<lparr> allocation = even_allocation,
       rebalance_cfg = \<lparr> rebalance_type = ''time'', rebalance_frequency = Some ''annual'',
                         rebalance_threshold = None \<rparr> \<rparr>"

definition even_strategy :: strategy where
  "even_strategy = TimeBased (TimeBasedRebalance_init even_allocation ''annual'' (2 / 1000))"

definition flat_month :: "real dict" where
  "flat_month = [(''stocks'', 0), (''bonds'', 0)]"

text \<open>
  A batch of two one-month trajectories, with a generator whose draws all equal the
  mean (any generator would do: the strategy's bookkeeping does not depend on the
  returns).
\<close>

definition mean_generator :: "unit np_random" where
  "mean_generator = \<lparr> np_seed = (\<lambda>sd. ()), np_normal = (\<lambda>mean std n g. (\<lambda>k. mean, g)) \<rparr>"

definition flat_stats :: "asset_stat dict" where
  "flat_stats = [(''stocks'', \<lparr> mean_return = 0, std_dev = 0 \<rparr>),
                 (''bonds'', \<lparr> mean_return = 0, std_dev = 0 \<rparr>)]"

definition short_batch :: mc_params where
  "short_batch = \<lparr> portfolio = even_config, n_months = Suc 0, sim = short_params,
                    random_seed = Some 42 \<rparr>"

text \<open>The strategy object as iteration \<open>i\<close> of the batch finds it.\<close>

definition strategy_at_iteration ::
  "'g np_random \<Rightarrow> mc_params \<Rightarrow> asset_stat dict \<Rightarrow> strategy \<Rightarrow> 'g \<Rightarrow> nat \<Rightarrow> strategy option" where
  "strategy_at_iteration rng mp asset_stats strat g i =
     (case monte_carlo_state rng mp asset_stats strat g i of
        Inl e \<Rightarrow> None
      | Inr st \<Rightarrow> Some (rebalance_strategy st))"

text \<open>
  What a trajectory does to the strategy object it is given: a set reference date
  stays set, and a threshold strategy is not changed at all.
\<close>

definition strategy_carried :: "strategy \<Rightarrow> strategy \<Rightarrow> bool" where
  "strategy_carried strat strat' \<longleftrightarrow>
     (strategy_last_date strat \<noteq> None \<longrightarrow> strategy_last_date strat' \<noteq> None)
   \<and> (\<forall>t. strat = ThresholdBased t \<longrightarrow> strat' = strat)"

section \<open>Rebalancing: cost, conservation and triggers\<close>

lemma total_change_loop_sum_aux:
  "foldl (\<lambda>total_change (asset, t). total_change + \<bar>t - dict_get current asset 0\<bar>) acc target
     = acc + (\<Sum>(asset, t)\<leftarrow>target. \<bar>t - dict_get current asset 0\<bar>)"
  by (induction target arbitrary: acc) (auto simp: algebra_simps)

lemma total_change_loop_sum:
  "total_change_loop target current = (\<Sum>(asset, t)\<leftarrow>target. \<bar>t - dict_get current asset 0\<bar>)"
  by (simp add: total_change_loop_def total_change_loop_sum_aux)

lemma sum_scaled_targets:
  "sum_list (dict_values (map (\<lambda>(asset, t). (asset, (r::real) * t)) target))
     = r * sum_list (dict_values target)"
  by (induction target) (auto simp: dict_values_def distrib_left)

lemma dict_get_current_allocation:
  "dict_get (current_allocation_of vals pv) a 0 = (if pv > 0 then dict_get vals a 0 / pv else 0)"
  by (induction vals) (auto simp: current_allocation_of_def dict_get_def)

lemma threshold_loop_iff:
  "threshold_loop th ca target \<longleftrightarrow> (\<exists>(asset, t) \<in> set target. \<bar>dict_get ca asset 0 - t\<bar> > th)"
  by (induction th ca target rule: threshold_loop.induct) (auto simp: Let_def)

text \<open>
  C1. The threshold strategy compares each deviation with \<open>>\<close>: with targets 0.5 / 0.5,
  threshold 0.25 and current weights 0.75 / 0.25 the largest deviation is exactly the
  threshold, and \<open>should_rebalance\<close> returns \<open>False\<close>, where the inclusive contract
  (and the boundary case of \<open>test_threshold_calculation\<close>) asks for \<open>True\<close>.
\<close>

theorem threshold_at_boundary_not_triggered:
  "ThresholdBased_should_rebalance
     (ThresholdBasedRebalance_init [(''stocks'', 1 / 2), (''bonds'', 1 / 2)] (1 / 4) (2 / 1000))
     [(''stocks'', 3 / 4), (''bonds'', 1 / 4)] 0 100000 = False
   \<and> Max {\<bar>3 / 4 - 1 / 2\<bar>, \<bar>1 / 4 - 1 / 2 :: real\<bar>} = 1 / 4"
  by (simp add: ThresholdBased_should_rebalance_def ThresholdBasedRebalance_init_def dict_get_def)

text \<open>
  C3. For a target allocation whose weights sum to 1, \<open>rebalance\<close> returns new values
  and a cost with \<open>sum(new_values) + cost = portfolio_value\<close>; the cost is
  \<open>portfolio_value * (turnover / 2) * transaction_cost\<close> with the turnover summed over
  the target's assets against the current weights (value / portfolio_value, 0 for an
  asset not held or a non-positive portfolio value); every new value is
  \<open>(portfolio_value - cost) * target_weight\<close>.
\<close>

theorem rebalance_conserves_value:
  assumes "sum_list (dict_values target) = 1"
  shows "case rebalance target tc current_values pv of (new_values, cost) \<Rightarrow>
           sum_list (dict_values new_values) + cost = pv
         \<and> cost = pv * ((\<Sum>(asset, t)\<leftarrow>target.
                 \<bar>t - (if pv > 0 then dict_get current_values asset 0 / pv else 0)\<bar>) / 2) * tc
         \<and> new_values = map (\<lambda>(asset, t). (asset, (pv - cost) * t)) target"
  using assms
  by (simp add: rebalance_def Let_def sum_scaled_targets calculate_rebalance_cost_def
      total_change_loop_sum dict_get_current_allocation)

theorem rebalance_conserves_value_witness:
  "sum_list (dict_values [(''stocks'', 6 / 10), (''bonds'', 4 / 10 :: real)]) = 1
   \<and> rebalance [(''stocks'', 6 / 10), (''bonds'', 4 / 10)] (2 / 1000)
        [(''stocks'', 70000), (''bonds'', 30000)] 100000
      = ([(''stocks'', 59988), (''bonds'', 39992)], 20)"
  using rebalance_conserves_value [where target = "[(''stocks'', 6 / 10), (''bonds'', 4 / 10)]"
      and tc = "2 / 1000" and current_values = "[(''stocks'', 70000), (''bonds'', 30000)]"
      and pv = 100000]
  by (simp add: dict_values_def dict_get_def split: prod.splits)

text \<open>
  C7. A time-based strategy built with one of the three frequencies returns \<open>True\<close> on
  its first call, whatever the arguments, and records the date; with a recorded
  reference date it returns \<open>True\<close> exactly when the whole days elapsed since that date
  reach the frequency's day count (monthly 30, quarterly 90, annual 365), and it moves
  the reference date to the supplied date on exactly those calls.
\<close>

theorem time_based_contract:
  fixes freq :: string and n :: int and target :: "real dict" and cost :: real
    and ca :: "real dict" and date :: datetime and pv :: real and ref :: datetime
  assumes "(freq, n) \<in> {(''monthly'', 30), (''quarterly'', 90), (''annual'', 365)}"
  defines "self \<equiv> TimeBasedRebalance_init target freq cost"
  shows "TimeBased_should_rebalance self ca date pv
           = (True, self\<lparr>last_rebalance_date := Some date\<rparr>)
       \<and> TimeBased_should_rebalance (self\<lparr>last_rebalance_date := Some ref\<rparr>) ca date pv
           = (if timedelta_days (date - ref) \<ge> n
              then (True, self\<lparr>last_rebalance_date := Some date\<rparr>)
              else (False, self\<lparr>last_rebalance_date := Some ref\<rparr>))"
  using assms(1) unfolding self_def
  by (auto simp: TimeBased_should_rebalance_def TimeBasedRebalance_init_def dict_get_def Let_def)

theorem time_based_contract_witness:
  "fst (TimeBased_should_rebalance
      (TimeBasedRebalance_init [(''stocks'', 6 / 10), (''bonds'', 4 / 10)] ''monthly'' (2 / 1000))
      [] 0 100000) = True
   \<and> fst (TimeBased_should_rebalance
      ((TimeBasedRebalance_init [(''stocks'', 6 / 10), (''bonds'', 4 / 10)] ''monthly'' (2 / 1000))
         \<lparr>last_rebalance_date := Some 0\<rparr>) [] (days 29) 100000) = False
   \<and> TimeBased_should_rebalance
      ((TimeBasedRebalance_init [(''stocks'', 6 / 10), (''bonds'', 4 / 10)] ''monthly'' (2 / 1000))
         \<lparr>last_rebalance_date := Some 0\<rparr>) [] (days 30) 100000
     = (True, (TimeBasedRebalance_init [(''stocks'', 6 / 10), (''bonds'', 4 / 10)] ''monthly''
                (2 / 1000)) \<lparr>last_rebalance_date := Some (days 30)\<rparr>)"
  using time_based_contract [of "''monthly''" 30 "[(''stocks'', 6 / 10), (''bonds'', 4 / 10)]"
      "2 / 1000" "[]" 0 100000 0]
    time_based_contract [of "''monthly''" 30 "[(''stocks'', 6 / 10), (''bonds'', 4 / 10)]"
      "2 / 1000" "[]" "days 29" 100000 0]
    time_based_contract [of "''monthly''" 30 "[(''stocks'', 6 / 10), (''bonds'', 4 / 10)]"
      "2 / 1000" "[]" "days 30" 100000 0]
  by (simp add: timedelta_days_def days_def microseconds_per_day_def)

text \<open>
  C10. A frequency string outside monthly / quarterly / annual raises nothing, neither
  in the factory nor in the constructor nor in a check; every check after the first
  compares the elapsed days with 365 and so decides, and moves the reference date, as
  the strategy with frequency annual does.
\<close>

theorem unknown_frequency_is_annual:
  assumes "freq \<notin> {''monthly'', ''quarterly'', ''annual''}"
  shows "create_rebalance_strategy
            \<lparr> allocation = target,
              rebalance_cfg = \<lparr> rebalance_type = ''time'', rebalance_frequency = Some freq,
                                rebalance_threshold = th \<rparr> \<rparr> cost
           = Inr (TimeBased (TimeBasedRebalance_init target freq cost))
       \<and> fst (TimeBased_should_rebalance
                ((TimeBasedRebalance_init target freq cost)\<lparr>last_rebalance_date := Some ref\<rparr>)
                ca date pv)
           = (timedelta_days (date - ref) \<ge> 365)
       \<and> fst (TimeBased_should_rebalance
                ((TimeBasedRebalance_init target freq cost)\<lparr>last_rebalance_date := Some ref\<rparr>)
                ca date pv)
           = fst (TimeBased_should_rebalance
                ((TimeBasedRebalance_init target ''annual'' cost)\<lparr>last_rebalance_date := Some ref\<rparr>)
                ca date pv)
       \<and> last_rebalance_date (snd (TimeBased_should_rebalance
                ((TimeBasedRebalance_init target freq cost)\<lparr>last_rebalance_date := Some ref\<rparr>)
                ca date pv))
           = last_rebalance_date (snd (TimeBased_should_rebalance
                ((TimeBasedRebalance_init target ''annual'' cost)\<lparr>last_rebalance_date := Some ref\<rparr>)
                ca date pv))"
  using assms
  by (auto simp: TimeBased_should_rebalance_def TimeBasedRebalance_init_def dict_get_def Let_def
      create_rebalance_strategy_def)

theorem unknown_frequency_is_annual_witness:
  "fst (TimeBased_should_rebalance
          ((TimeBasedRebalance_init [(''stocks'', 1)] ''weekly'' 0)\<lparr>last_rebalance_date := Some 0\<rparr>)
          [] (days 364) 1) = False
   \<and> fst (TimeBased_should_rebalance
          ((TimeBasedRebalance_init [(''stocks'', 1)] ''weekly'' 0)\<lparr>last_rebalance_date := Some 0\<rparr>)
          [] (days 365) 1) = True"
  using unknown_frequency_is_annual [of "''weekly''" "[(''stocks'', 1)]" None 0 0 "[]" "days 364" 1]
    unknown_frequency_is_annual [of "''weekly''" "[(''stocks'', 1)]" None 0 0 "[]" "days 365" 1]
  by (simp add: timedelta_days_def days_def microseconds_per_day_def)

section \<open>The monthly stepper\<close>

lemmas path_defs = initial_state_def
  month_body_def inflation_step_def apply_returns_def apply_contribution_def
  month_withdrawal_def thirteenth_payment_months_0indexed_def prorate_withdrawal_def
  current_allocation_of_def strategy_rebalance_def rebalance_def calculate_rebalance_cost_def
  total_change_loop_def history_entry_def dict_values_def dict_keys_def dict_get_def
  TimeBased_should_rebalance_def TimeBasedRebalance_init_def timedelta_days_def days_def
  microseconds_per_day_def

lemmas example_defs = short_params_def contributing_params_def taxed_params_def levy_params_def
  even_allocation_def even_config_def even_strategy_def flat_month_def

lemma sum_prorated:
  "sum_list (dict_values (map (\<lambda>(asset, v). (asset, v / (d::real) * t)) nav))
     = sum_list (dict_values nav) / d * t"
  by (induction nav) (auto simp: dict_values_def add_divide_distrib distrib_right)

lemma sum_reduced:
  "sum_list (dict_values (map (\<lambda>(asset, v). (asset, v * (r::real))) nav))
     = sum_list (dict_values nav) * r"
  by (induction nav) (auto simp: dict_values_def distrib_right)

lemma all_zero_sum: "\<forall>v \<in> set xs. v = (0::real) \<Longrightarrow> sum_list xs = 0"
  by (induction xs) auto

lemma zeroed_values: "\<forall>v \<in> set (dict_values (map (\<lambda>(asset, v). (asset, 0::real)) nav)). v = 0"
  by (auto simp: dict_values_def)

lemma apply_returns_nonempty: "apply_returns vals row \<noteq> [] \<longleftrightarrow> vals \<noteq> []"
  by (simp add: apply_returns_def)

lemma should_rebalance_keeps:
  assumes "should_rebalance strat ca date pv = (due, strat')"
  shows "strategy_target strat' = strategy_target strat"
    and "strategy_cost strat' = strategy_cost strat"
  using assms
  by (cases strat; auto simp: TimeBased_should_rebalance_def Let_def
        split: option.splits if_splits prod.splits)+

lemma inflation_step_nonneg:
  "inflation_step p month w = Inr w' \<Longrightarrow> 0 \<le> w \<Longrightarrow> 0 \<le> w'"
  by (auto simp: inflation_step_def Let_def split: if_splits)

lemma month_withdrawal_nonneg:
  "month_withdrawal p month w = Inr mw \<Longrightarrow> 0 \<le> w \<Longrightarrow> 0 \<le> thirteenth_payment_amount p
     \<Longrightarrow> 0 \<le> mw"
  by (auto simp: month_withdrawal_def split: if_splits)

lemma apply_contribution_cases:
  assumes "apply_contribution p pv nav = Inr (c, pv', nav')"
  shows "(pv' = pv \<and> nav' = nav)
       \<or> (pv' = pv + c \<and> pv' \<le> 0 \<and> nav' = nav)
       \<or> (pv' = pv + c \<and> pv' > 0 \<and> (nav = [] \<or> pv \<noteq> 0)
            \<and> nav' = map (\<lambda>(asset, v). (asset, v / pv * pv')) nav)"
  using assms
  by (auto simp: apply_contribution_def Let_def split: if_splits)

lemma apply_contribution_total:
  assumes "apply_contribution p (sum_list (dict_values nav)) nav = Inr (c, pv', nav')"
    and "nav \<noteq> []"
  shows "pv' \<le> 0 \<or> sum_list (dict_values nav') = pv'"
proof -
  from apply_contribution_cases [OF assms(1)]
  consider "pv' = sum_list (dict_values nav) \<and> nav' = nav" | "pv' \<le> 0"
    | "sum_list (dict_values nav) \<noteq> 0
       \<and> nav' = map (\<lambda>(asset, v). (asset, v / sum_list (dict_values nav) * pv')) nav"
    using assms(2) by blast
  then show ?thesis
  proof cases
    case 1 then show ?thesis by simp
  next
    case 2 then show ?thesis by simp
  next
    case 3
    then have "sum_list (dict_values nav') = sum_list (dict_values nav) / sum_list (dict_values nav) * pv'"
      by (simp only: sum_prorated)
    with 3 show ?thesis by simp
  qed
qed

lemma apply_contribution_nonempty:
  "apply_contribution p pv nav = Inr (c, pv', nav') \<Longrightarrow> nav \<noteq> [] \<Longrightarrow> nav' \<noteq> []"
  by (auto simp: apply_contribution_def Let_def split: if_splits)

lemma prorate_withdrawal_total:
  assumes "prorate_withdrawal (pv - mw) mw nav = Inr nav'" and "nav \<noteq> []"
    and "sum_list (dict_values nav) = pv"
  shows "sum_list (dict_values nav') = pv - mw \<and> pv \<noteq> 0 \<and> nav' \<noteq> []"
proof -
  from assms(1,2) have nz: "pv \<noteq> 0"
    and nav': "nav' = map (\<lambda>(asset, v). (asset, v * (1 - mw / (pv - mw + mw)))) nav"
    by (auto simp: prorate_withdrawal_def split: if_splits)
  have "sum_list (dict_values nav') = sum_list (dict_values nav) * (1 - mw / (pv - mw + mw))"
    unfolding nav' by (rule sum_reduced)
  also have "\<dots> = pv - mw"
    using nz assms(3) by (simp add: field_simps)
  finally show ?thesis
    using nz assms(2) nav' by simp
qed

lemma strategy_rebalance_total:
  assumes "strategy_rebalance strat nav pv = (nav', cost)"
    and "sum_list (dict_values (strategy_target strat)) = 1"
  shows "sum_list (dict_values nav') = pv - cost \<and> nav' \<noteq> []"
proof -
  from assms(1) have nav': "nav' = map (\<lambda>(asset, t). (asset, (pv - cost) * t)) (strategy_target strat)"
    by (auto simp: strategy_rebalance_def rebalance_def Let_def)
  have "sum_list (dict_values nav') = (pv - cost) * sum_list (dict_values (strategy_target strat))"
    unfolding nav' by (rule sum_scaled_targets)
  moreover have "strategy_target strat \<noteq> []"
    using assms(2) by (auto simp: dict_values_def)
  ultimately show ?thesis
    using assms(2) nav' by simp
qed

text \<open>What a pass of the loop body that does not fault has done: a withdrawal or a ruin.\<close>

lemma month_body_Inr:
  assumes "month_body p alloc row m s = Inr s'"
  obtains (withdrawn) w c pv nav mw nav' due strat nav'' cost where
      "inflation_step p m (withdrawal s) = Inr w"
      "apply_contribution p (sum_list (dict_values (apply_returns (asset_values s) row)))
         (apply_returns (asset_values s) row) = Inr (c, pv, nav)"
      "month_withdrawal p m w = Inr mw"
      "mw \<le> pv"
      "prorate_withdrawal (pv - mw) mw nav = Inr nav'"
      "should_rebalance (strategy_obj s) (current_allocation_of nav' (pv - mw)) (current_date s)
         (pv - mw) = (due, strat)"
      "(if due then strategy_rebalance strat nav' (pv - mw) else (nav', 0)) = (nav'', cost)"
      "s' = s\<lparr> portfolio_value := pv - mw - cost, asset_values := nav'',
                new_asset_values := nav'',
                history := history s @
                  [history_entry alloc m (pv - mw - cost) mw w c (total_withdrawals s + mw)
                     (total_contributions s + c) (total_rebalance_costs s + cost) nav''],
                withdrawal := w, total_withdrawals := total_withdrawals s + mw,
                total_contributions := total_contributions s + c,
                total_rebalance_costs := total_rebalance_costs s + cost,
                current_date := current_date s + days 30, strategy_obj := strat \<rparr>"
    | (ruin) w c pv nav mw where
      "inflation_step p m (withdrawal s) = Inr w"
      "apply_contribution p (sum_list (dict_values (apply_returns (asset_values s) row)))
         (apply_returns (asset_values s) row) = Inr (c, pv, nav)"
      "month_withdrawal p m w = Inr mw"
      "pv < mw"
      "s' = s\<lparr> portfolio_value := 0,
                new_asset_values := map (\<lambda>(asset, v). (asset, 0)) nav,
                withdrawal := w, total_contributions := total_contributions s + c,
                months_survived := m, broke := True \<rparr>"
  using assms unfolding month_body_def Let_def
  by (auto split: sum.splits prod.splits if_splits)

lemma month_body_inv:
  assumes body: "month_body p alloc row m s = Inr s'"
    and inv: "path_inv m s" and live: "\<not> broke s"
    and amt: "0 \<le> thirteenth_payment_amount p"
  shows "path_inv (Suc m) s'"
  using body
proof (cases rule: month_body_Inr)
  case (withdrawn w c pv nav mw nav' due strat nav'' cost)
  let ?nav0 = "apply_returns (asset_values s) row"
  from inv live have ne0: "?nav0 \<noteq> []" and w0: "0 \<le> withdrawal s"
    and tgt: "sum_list (dict_values (strategy_target (strategy_obj s))) = 1"
    by (simp_all add: path_inv_def apply_returns_nonempty)
  have w: "0 \<le> w" using withdrawn(1) w0 by (rule inflation_step_nonneg)
  have mw: "0 \<le> mw" using withdrawn(3) w amt by (rule month_withdrawal_nonneg)
  have ne: "nav \<noteq> []" using withdrawn(2) ne0 by (rule apply_contribution_nonempty)
  have pv_ne: "pv \<noteq> 0"
    using withdrawn(5) ne by (auto simp: prorate_withdrawal_def split: if_splits)
  with mw withdrawn(4) have "0 < pv" by simp
  with apply_contribution_total [OF withdrawn(2) ne0] have tot: "sum_list (dict_values nav) = pv"
    by simp
  from prorate_withdrawal_total [OF withdrawn(5) ne tot]
  have tot': "sum_list (dict_values nav') = pv - mw" and ne': "nav' \<noteq> []" by simp_all
  have tgt': "sum_list (dict_values (strategy_target strat)) = 1"
    using should_rebalance_keeps(1) [OF withdrawn(6)] tgt by simp
  have "sum_list (dict_values nav'') = pv - mw - cost \<and> nav'' \<noteq> []"
  proof (cases due)
    case True
    with withdrawn(7) have "strategy_rebalance strat nav' (pv - mw) = (nav'', cost)" by simp
    from strategy_rebalance_total [OF this tgt'] show ?thesis .
  next
    case False
    with withdrawn(7) tot' ne' show ?thesis by auto
  qed
  with w tgt' live inv show ?thesis
    unfolding withdrawn(8) by (simp add: path_inv_def)
next
  case (ruin w c pv nav mw)
  have w: "0 \<le> w"
    using ruin(1) inv by (auto intro: inflation_step_nonneg simp: path_inv_def)
  with inv live show ?thesis
    unfolding ruin(5) by (simp add: path_inv_def zeroed_values)
qed

lemma initial_state_inv:
  assumes "sum_list (dict_values alloc) = 1" "sum_list (dict_values (strategy_target strat)) = 1"
    "0 \<le> withdrawal_amount p"
  shows "path_inv 0 (initial_state p alloc n strat)"
proof -
  have "sum_list (dict_values (map (\<lambda>(asset, weight). (asset, initial_capital p * weight)) alloc))
          = initial_capital p * sum_list (dict_values alloc)"
    by (rule sum_scaled_targets)
  moreover have "alloc \<noteq> []" using assms(1) by (auto simp: dict_values_def)
  ultimately show ?thesis
    using assms by (simp add: path_inv_def initial_state_def)
qed

lemma path_inv_mono: "path_inv k s \<Longrightarrow> broke s \<Longrightarrow> k \<le> j \<Longrightarrow> path_inv j s"
  by (auto simp: path_inv_def)

lemma months_loop_step:
  "months_loop p alloc rows k s0 = Inr s \<Longrightarrow> \<not> broke s
     \<Longrightarrow> months_loop p alloc rows (Suc k) s0 = month_body p alloc (rows ! k) k s"
  by simp

lemma months_loop_inv:
  assumes "path_inv 0 s0" "0 \<le> thirteenth_payment_amount p"
    and "months_loop p alloc rows k s0 = Inr s"
  shows "path_inv k s"
  using assms(3)
proof (induction k arbitrary: s)
  case 0
  with assms(1) show ?case by simp
next
  case (Suc k)
  then obtain s1 where s1: "months_loop p alloc rows k s0 = Inr s1"
    and step: "(if broke s1 then Inr s1 else month_body p alloc (rows ! k) k s1) = Inr s"
    by (auto split: sum.splits)
  have inv1: "path_inv k s1" using Suc.IH s1 by simp
  show ?case
  proof (cases "broke s1")
    case True
    with step inv1 show ?thesis by (auto intro: path_inv_mono)
  next
    case False
    with step have "month_body p alloc (rows ! k) k s1 = Inr s" by simp
    from month_body_inv [OF this inv1 False assms(2)] show ?thesis .
  qed
qed

lemma months_loop_broke_stays:
  assumes "months_loop p alloc rows k s0 = Inr s" "broke s" "k \<le> j"
  shows "months_loop p alloc rows j s0 = Inr s"
  using assms(3)
proof (induction j)
  case 0
  with assms(1) show ?case by simp
next
  case (Suc j)
  show ?case
  proof (cases "k = Suc j")
    case True
    with assms(1) show ?thesis by simp
  next
    case False
    with Suc have "months_loop p alloc rows j s0 = Inr s" by simp
    with assms(2) show ?thesis by simp
  qed
qed

lemma month_body_ruin_month:
  assumes "month_body p alloc row m s = Inr s'" "broke s'" "\<not> broke s"
  shows "months_survived s' = m \<and> portfolio_value s' = 0
       \<and> (\<forall>v \<in> set (dict_values (new_asset_values s')). v = 0)
       \<and> strategy_obj s' = strategy_obj s
       \<and> total_rebalance_costs s' = total_rebalance_costs s
       \<and> history s' = history s"
  using assms(1)
proof (cases rule: month_body_Inr)
  case (withdrawn w c pv nav mw nav' due strat nav'' cost)
  with assms(2,3) show ?thesis by simp
next
  case (ruin w c pv nav mw)
  then show ?thesis by (simp add: zeroed_values)
qed

lemma months_loop_ruin_month:
  assumes "months_loop p alloc rows m s0 = Inr s" "\<not> broke s"
    and "months_loop p alloc rows (Suc m) s0 = Inr s'" "broke s'"
  shows "months_survived s' = m \<and> portfolio_value s' = 0
       \<and> (\<forall>v \<in> set (dict_values (new_asset_values s')). v = 0)
       \<and> strategy_obj s' = strategy_obj s
       \<and> total_rebalance_costs s' = total_rebalance_costs s
       \<and> history s' = history s
       \<and> (\<forall>j > m. months_loop p alloc rows j s0 = Inr s')"
proof -
  from months_loop_step [OF assms(1,2)] assms(3)
  have body: "month_body p alloc (rows ! m) m s = Inr s'" by simp
  have "\<forall>j > m. months_loop p alloc rows j s0 = Inr s'"
    using months_loop_broke_stays [OF assms(3,4)] by auto
  with month_body_ruin_month [OF body assms(4,2)] show ?thesis by simp
qed

text \<open>The short trajectory: one month survived, ruin in the second.\<close>

lemma short_run:
  "\<exists>s s'. months_loop short_params even_allocation [flat_month, flat_month] (Suc 0)
            (initial_state short_params even_allocation 2 even_strategy) = Inr s
         \<and> \<not> broke s
         \<and> months_loop short_params even_allocation [flat_month, flat_month] (Suc (Suc 0))
            (initial_state short_params even_allocation 2 even_strategy) = Inr s'
         \<and> broke s'"
  by (simp add: path_defs example_defs Let_def)

text \<open>
  On a trajectory with no division by zero (in exact arithmetic), for a portfolio and a
  strategy whose target weights sum to 1 and non-negative withdrawal amounts: while the
  trajectory is live the tracked \<open>portfolio_value\<close> is the sum of the per-asset values
  (and one history row was written per month); once ruin is declared the value is 0,
  every entry of \<open>new_asset_values\<close> is 0, the history has one row per month survived,
  and the state never changes again.
\<close>

lemma month_boundary_invariant:
  assumes "sum_list (dict_values (allocation cfg)) = 1"
    and "sum_list (dict_values (strategy_target strat)) = 1"
    and "0 \<le> withdrawal_amount p" and "0 \<le> thirteenth_payment_amount p"
    and "k \<le> length rows"
    and "months_loop p (allocation cfg) rows k
           (initial_state p (allocation cfg) (length rows) strat) = Inr s"
  shows "(\<not> broke s \<longrightarrow>
            portfolio_value s = sum_list (dict_values (asset_values s))
          \<and> length (history s) = k)
       \<and> (broke s \<longrightarrow>
            (\<forall>v \<in> set (dict_values (new_asset_values s)). v = 0)
          \<and> portfolio_value s = 0
          \<and> portfolio_value s = sum_list (dict_values (new_asset_values s))
          \<and> months_survived s < k
          \<and> length (history s) = months_survived s
          \<and> (\<forall>j \<ge> k. months_loop p (allocation cfg) rows j
                  (initial_state p (allocation cfg) (length rows) strat) = Inr s))"
proof -
  have "path_inv 0 (initial_state p (allocation cfg) (length rows) strat)"
    using assms(1-3) by (rule initial_state_inv)
  from months_loop_inv [OF this assms(4,6)] have inv: "path_inv k s" .
  have zero: "sum_list (dict_values (new_asset_values s)) = 0"
    if "\<forall>v \<in> set (dict_values (new_asset_values s)). v = 0"
    using that by (rule all_zero_sum)
  have stay: "\<forall>j \<ge> k. months_loop p (allocation cfg) rows j
                  (initial_state p (allocation cfg) (length rows) strat) = Inr s" if "broke s"
    using months_loop_broke_stays [OF assms(6) that] by simp
  from inv zero stay show ?thesis
    by (auto simp: path_inv_def)
qed

lemma month_boundary_invariant_example:
  "\<exists>s s'. months_loop short_params even_allocation [flat_month, flat_month] (Suc 0)
            (initial_state short_params even_allocation 2 even_strategy) = Inr s
         \<and> portfolio_value s = sum_list (dict_values (asset_values s))
         \<and> months_loop short_params even_allocation [flat_month, flat_month] (Suc (Suc 0))
            (initial_state short_params even_allocation 2 even_strategy) = Inr s'
         \<and> portfolio_value s' = 0
         \<and> (\<forall>v \<in> set (dict_values (new_asset_values s')). v = 0)
         \<and> length (history s') = months_survived s'"
proof -
  let ?rows = "[flat_month, flat_month]"
  have len: "length ?rows = 2" and alloc: "allocation even_config = even_allocation"
    by (simp_all add: even_config_def)
  from short_run obtain s s' where
    run: "months_loop short_params (allocation even_config) ?rows (Suc 0)
            (initial_state short_params (allocation even_config) (length ?rows) even_strategy) = Inr s"
    and live: "\<not> broke s"
    and run': "months_loop short_params (allocation even_config) ?rows (Suc (Suc 0))
            (initial_state short_params (allocation even_config) (length ?rows) even_strategy) = Inr s'"
    and dead: "broke s'"
    unfolding len alloc by blast
  have h1: "sum_list (dict_values (allocation even_config)) = 1"
    by (simp add: dict_values_def example_defs)
  have h2: "sum_list (dict_values (strategy_target even_strategy)) = 1"
    by (simp add: dict_values_def example_defs TimeBasedRebalance_init_def)
  have h3: "0 \<le> withdrawal_amount short_params"
    and h4: "0 \<le> thirteenth_payment_amount short_params"
    by (simp_all add: short_params_def)
  have h5: "Suc 0 \<le> length ?rows" and h5': "Suc (Suc 0) \<le> length ?rows" by simp_all
  from month_boundary_invariant [OF h1 h2 h3 h4 h5 run] live
  have a: "portfolio_value s = sum_list (dict_values (asset_values s))" by blast
  from month_boundary_invariant [OF h1 h2 h3 h4 h5' run'] dead
  have b: "portfolio_value s' = 0" "\<forall>v \<in> set (dict_values (new_asset_values s')). v = 0"
    "length (history s') = months_survived s'" by blast+
  from run [unfolded len alloc] run' [unfolded len alloc] a b show ?thesis by blast
qed

text \<open>
  C4. The invariant is lost on a trajectory the inputs allow: capital 2000, weights
  0.5 / 0.5, a contribution of -1000 per month, no withdrawal, an annual strategy. The
  first month ends live with value 1000 = 500 + 500. In the second month the
  contribution brings the total to 0 and, the new total not being positive, leaves the
  per-asset values at 500 / 500; the withdrawal test \<open>0 >= 0\<close> passes, so the month is
  not a ruin month, and the proration divides by \<open>0 + 0\<close>. On numpy floats the factor is
  \<open>nan\<close>, no rebalance is due, and the month ends live with total 0 and per-asset
  values \<open>nan\<close>.
\<close>

theorem invariant_lost_at_zero_total:
  "sum_list (dict_values (allocation even_config)) = 1
   \<and> sum_list (dict_values (strategy_target even_strategy)) = 1
   \<and> (case months_loop levy_params even_allocation [flat_month, flat_month] (Suc 0)
              (initial_state levy_params even_allocation 2 even_strategy) of
         Inl e \<Rightarrow> False
       | Inr s \<Rightarrow> \<not> broke s \<and> portfolio_value s = 1000
                 \<and> asset_values s = [(''stocks'', 500), (''bonds'', 500)])
   \<and> apply_contribution levy_params 1000 [(''stocks'', 500), (''bonds'', 500)]
       = Inr (- 1000, 0, [(''stocks'', 500), (''bonds'', 500)])
   \<and> month_withdrawal levy_params (Suc 0) (withdrawal_amount levy_params) = Inr 0
   \<and> prorate_withdrawal (0 - 0) 0 [(''stocks'', 500), (''bonds'', 500)] = Inl ZeroDivision
   \<and> path_final_state levy_params even_config even_strategy [flat_month, flat_month]
       = Inl ZeroDivision"
  by (simp add: path_final_state_def path_defs example_defs numeral_2_eq_2 Let_def)

lemma ruin_month_survive:
  assumes "ruin_shape P s" "2000 \<le> P"
  shows "\<exists>s'. month_body ruin_params ruin_allocation [(''stocks'', 0), (''bonds'', 0)] m s = Inr s'
              \<and> ruin_shape (P - 2000) s'"
proof -
  let ?nav' = "[(''stocks'', P * (6 / 10) * (1 - 2000 / (P - 2000 + 2000))),
                (''bonds'', P * (4 / 10) * (1 - 2000 / (P - 2000 + 2000)))]"
  obtain due strat where sr: "should_rebalance (strategy_obj s)
      (current_allocation_of ?nav' (P - 2000)) (current_date s) (P - 2000) = (due, strat)"
    by (cases "should_rebalance (strategy_obj s)
      (current_allocation_of ?nav' (P - 2000)) (current_date s) (P - 2000)")
  from should_rebalance_keeps [OF sr] assms(1)
  have keep: "strategy_target strat = ruin_allocation" "strategy_cost strat = 0"
    by (simp_all add: ruin_shape_def)
  have nav': "?nav' = [(''stocks'', (P - 2000) * (6 / 10)), (''bonds'', (P - 2000) * (4 / 10))]"
    using assms(2) by (simp add: field_simps)
  have reb: "strategy_rebalance strat ?nav' (P - 2000)
      = ([(''stocks'', (P - 2000) * (6 / 10)), (''bonds'', (P - 2000) * (4 / 10))], 0)"
    by (simp add: strategy_rebalance_def rebalance_def keep calculate_rebalance_cost_def
        ruin_allocation_def Let_def)
  have tot: "P * (6 / 10) + P * (4 / 10) = P" by simp
  show ?thesis
    using assms sr reb nav' keep
    by (cases due)
      (simp_all add: month_body_def ruin_shape_def ruin_params_def inflation_step_def
        apply_returns_def apply_contribution_def month_withdrawal_def
        thirteenth_payment_months_0indexed_def prorate_withdrawal_def dict_values_def tot
        Let_def)
qed

lemma ruin_loop_alive:
  assumes "strategy_target strat = ruin_allocation" "strategy_cost strat = 0" "k \<le> 50"
  shows "\<exists>s. months_loop ruin_params ruin_allocation ruin_returns k
               (initial_state ruin_params ruin_allocation 60 strat) = Inr s
            \<and> ruin_shape (100000 - 2000 * real k) s"
  using assms(3)
proof (induction k)
  case 0
  with assms(1,2) show ?case
    by (simp add: ruin_shape_def initial_state_def ruin_params_def ruin_allocation_def)
next
  case (Suc k)
  then obtain s where s: "months_loop ruin_params ruin_allocation ruin_returns k
      (initial_state ruin_params ruin_allocation 60 strat) = Inr s"
    and shape: "ruin_shape (100000 - 2000 * real k) s"
    by auto
  from Suc.prems have "2000 \<le> 100000 - 2000 * real k" by simp
  from ruin_month_survive [OF shape this, of k]
  obtain s' where "month_body ruin_params ruin_allocation [(''stocks'', 0), (''bonds'', 0)] k s = Inr s'"
    and "ruin_shape (100000 - 2000 * real k - 2000) s'" by blast
  moreover have "ruin_returns ! k = [(''stocks'', 0), (''bonds'', 0)]"
    using Suc.prems by (simp add: ruin_returns_def)
  moreover have "100000 - 2000 * real k - 2000 = 100000 - 2000 * real (Suc k)" by simp
  ultimately show ?case
    using s shape by (simp add: ruin_shape_def)
qed

lemma ruin_month_declared:
  assumes "ruin_shape 0 s"
  shows "\<exists>s'. month_body ruin_params ruin_allocation [(''stocks'', 0), (''bonds'', 0)] m s = Inr s'
           \<and> broke s' \<and> portfolio_value s' = 0 \<and> months_survived s' = m"
  using assms
  by (simp add: month_body_def ruin_shape_def ruin_params_def inflation_step_def
        apply_returns_def apply_contribution_def month_withdrawal_def
        thirteenth_payment_months_0indexed_def dict_values_def Let_def)

lemma ruin_final_state:
  assumes "strategy_target strat = ruin_allocation" "strategy_cost strat = 0"
  shows "\<exists>s. months_loop ruin_params ruin_allocation ruin_returns 60
               (initial_state ruin_params ruin_allocation 60 strat) = Inr s
            \<and> broke s \<and> portfolio_value s = 0 \<and> months_survived s = 50"
proof -
  from ruin_loop_alive [OF assms, of 50]
  obtain s where s: "months_loop ruin_params ruin_allocation ruin_returns 50
      (initial_state ruin_params ruin_allocation 60 strat) = Inr s"
    and shape: "ruin_shape 0 s" by auto
  from ruin_month_declared [OF shape, of 50]
  obtain s' where body: "month_body ruin_params ruin_allocation [(''stocks'', 0), (''bonds'', 0)] 50 s = Inr s'"
    and s': "broke s'" "portfolio_value s' = 0" "months_survived s' = 50" by blast
  have "ruin_returns ! 50 = [(''stocks'', 0), (''bonds'', 0)]"
    by (simp add: ruin_returns_def)
  moreover have "\<not> broke s" using shape by (simp add: ruin_shape_def)
  ultimately have "months_loop ruin_params ruin_allocation ruin_returns (Suc 50)
      (initial_state ruin_params ruin_allocation 60 strat) = Inr s'"
    using months_loop_step [OF s] body by simp
  from months_loop_broke_stays [OF this s'(1), of 60] s' show ?thesis by auto
qed

text \<open>
  C8. The ruin example, for every strategy with the example's target weights and
  transaction cost 0: \<open>simulate_portfolio_path\<close> returns \<open>months_survived = 50\<close>,
  \<open>survived_full_period = False\<close> and \<open>final_value = 0\<close>. In general, when month \<open>m\<close> is
  the ruin month, the simulator records \<open>months_survived = m\<close>, sets the value and every
  asset's value to 0, leaves the strategy object, the rebalance costs and the history as
  they were (no rebalancing, no snapshot) and simulates no later month.
\<close>

theorem ruin_arithmetic:
  assumes "strategy_target strat = [(''stocks'', 6 / 10), (''bonds'', 4 / 10)]"
    and "strategy_cost strat = 0"
  shows "(\<exists>hist metrics strat'.
            simulate_portfolio_path ruin_params
              \<lparr> allocation = [(''stocks'', 6 / 10), (''bonds'', 4 / 10)], rebalance_cfg = rc \<rparr>
              strat (replicate 60 [(''stocks'', 0), (''bonds'', 0)]) = Inr (hist, metrics, strat')
          \<and> m_months_survived metrics = 50 \<and> survived_full_period metrics = False
          \<and> final_value metrics = 0)
       \<and> (\<forall>p alloc rows m s0 s s'.
            months_loop p alloc rows m s0 = Inr s \<and> \<not> broke s
            \<and> months_loop p alloc rows (Suc m) s0 = Inr s' \<and> broke s'
            \<longrightarrow> months_survived s' = m \<and> portfolio_value s' = 0
              \<and> (\<forall>v \<in> set (dict_values (new_asset_values s')). v = 0)
              \<and> strategy_obj s' = strategy_obj s
              \<and> total_rebalance_costs s' = total_rebalance_costs s
              \<and> history s' = history s
              \<and> (\<forall>j > m. months_loop p alloc rows j s0 = Inr s'))"
proof (rule conjI)
  from ruin_final_state [of strat] assms
  obtain s where "months_loop ruin_params ruin_allocation ruin_returns 60
               (initial_state ruin_params ruin_allocation 60 strat) = Inr s"
    "broke s" "portfolio_value s = 0" "months_survived s = 50"
    by (auto simp: ruin_allocation_def)
  then show "\<exists>hist metrics strat'.
            simulate_portfolio_path ruin_params
              \<lparr> allocation = [(''stocks'', 6 / 10), (''bonds'', 4 / 10)], rebalance_cfg = rc \<rparr>
              strat (replicate 60 [(''stocks'', 0), (''bonds'', 0)]) = Inr (hist, metrics, strat')
          \<and> m_months_survived metrics = 50 \<and> survived_full_period metrics = False
          \<and> final_value metrics = 0"
    by (simp add: simulate_portfolio_path_def path_final_state_def metrics_of_def
        ruin_allocation_def ruin_returns_def)
next
  show "\<forall>p alloc rows m s0 s s'.
            months_loop p alloc rows m s0 = Inr s \<and> \<not> broke s
            \<and> months_loop p alloc rows (Suc m) s0 = Inr s' \<and> broke s'
            \<longrightarrow> months_survived s' = m \<and> portfolio_value s' = 0
              \<and> (\<forall>v \<in> set (dict_values (new_asset_values s')). v = 0)
              \<and> strategy_obj s' = strategy_obj s
              \<and> total_rebalance_costs s' = total_rebalance_costs s
              \<and> history s' = history s
              \<and> (\<forall>j > m. months_loop p alloc rows j s0 = Inr s')"
    by (intro allI impI, elim conjE, rule months_loop_ruin_month)
qed

theorem ruin_arithmetic_witness:
  "(\<exists>hist metrics strat'.
       simulate_portfolio_path ruin_params
         \<lparr> allocation = [(''stocks'', 6 / 10), (''bonds'', 4 / 10)],
           rebalance_cfg = \<lparr> rebalance_type = ''time'', rebalance_frequency = Some ''annual'',
                             rebalance_threshold = None \<rparr> \<rparr>
         (TimeBased (TimeBasedRebalance_init [(''stocks'', 6 / 10), (''bonds'', 4 / 10)] ''annual'' 0))
         (replicate 60 [(''stocks'', 0), (''bonds'', 0)]) = Inr (hist, metrics, strat')
     \<and> m_months_survived metrics = 50 \<and> survived_full_period metrics = False
     \<and> final_value metrics = 0)
   \<and> (\<exists>s s'. months_loop short_params even_allocation [flat_month, flat_month] (Suc 0)
            (initial_state short_params even_allocation 2 even_strategy) = Inr s
         \<and> months_loop short_params even_allocation [flat_month, flat_month] (Suc (Suc 0))
            (initial_state short_params even_allocation 2 even_strategy) = Inr s'
         \<and> months_survived s' = Suc 0 \<and> portfolio_value s' = 0
         \<and> strategy_obj s' = strategy_obj s)"
proof -
  let ?strat = "TimeBased (TimeBasedRebalance_init [(''stocks'', 6 / 10), (''bonds'', 4 / 10)] ''annual'' 0)"
  let ?rc = "\<lparr> rebalance_type = ''time'', rebalance_frequency = Some ''annual'',
                             rebalance_threshold = None \<rparr>"
  have h1: "strategy_target ?strat = [(''stocks'', 6 / 10), (''bonds'', 4 / 10)]"
    and h2: "strategy_cost ?strat = 0"
    by (simp_all add: TimeBasedRebalance_init_def)
  note ra = ruin_arithmetic [OF h1 h2, of ?rc]
  from short_run obtain s s' where
    run: "months_loop short_params even_allocation [flat_month, flat_month] (Suc 0)
            (initial_state short_params even_allocation 2 even_strategy) = Inr s"
      "\<not> broke s"
      "months_loop short_params even_allocation [flat_month, flat_month] (Suc (Suc 0))
            (initial_state short_params even_allocation 2 even_strategy) = Inr s'"
      "broke s'" by blast
  from ra [THEN conjunct2, rule_format, of short_params even_allocation
      "[flat_month, flat_month]" "Suc 0" _ s s'] run
  have "months_survived s' = Suc 0" "portfolio_value s' = 0" "strategy_obj s' = strategy_obj s"
    by blast+
  with run ra [THEN conjunct1] show ?thesis by blast
qed

section \<open>Contribution and withdrawal proration\<close>




text \<open>
  The difference is the total before the addition only up to rounding: a total that
  the addition absorbs gives the divisor 0, where exact arithmetic gives a proportional
  split.
\<close>

lemma absorbed_total_divides_by_zero:
  "apply_contribution_rounded integer_grid_ops contributing_params (1 / 2)
     [(''stocks'', 1 / 4), (''bonds'', 1 / 4)] = Inl ZeroDivision
   \<and> apply_contribution contributing_params (1 / 2) [(''stocks'', 1 / 4), (''bonds'', 1 / 4)]
     = Inr (100, 201 / 2, [(''stocks'', 201 / 4), (''bonds'', 201 / 4)])"
  by (simp add: apply_contribution_def apply_contribution_rounded_def integer_grid_ops_def
      contributing_params_def)

text \<open>
  C6. Two divisions of the monthly stepper have an unguarded divisor. With capital 900,
  a contribution of 100 and a withdrawal of 1000 per month, the first month withdraws
  the whole portfolio, and the second month's contribution step divides by the zero
  total. With capital 1000, a contribution of -1000 and no withdrawal, the first
  month's withdrawal proration divides by the zero total.
\<close>

theorem proration_divides_by_zero:
  "simulate_portfolio_path contributing_params even_config even_strategy [flat_month, flat_month]
     = Inl ZeroDivision
   \<and> simulate_portfolio_path taxed_params even_config even_strategy [flat_month]
     = Inl ZeroDivision"
  by (simp add: simulate_portfolio_path_def path_final_state_def path_defs example_defs
      numeral_2_eq_2 Let_def)

section \<open>Seeding\<close>

lemma iteration_seed_nonzero:
  "b \<noteq> 0 \<Longrightarrow> iteration_seed (Some b) i = Some (b + int i)"
  by (simp add: iteration_seed_def)

text \<open>
  C9. With base seed 0 the batch derives no seed for any iteration: the generator is
  not seeded, and the returns are those drawn without a seed from whatever state the
  generator is in.
\<close>

theorem base_seed_zero_is_unseeded:
  "iteration_seed (Some 0) i = None
   \<and> seed_generator rng (iteration_seed (Some 0) i) g = Inr g
   \<and> generate_monthly_returns rng asset_stats n (iteration_seed (Some 0) i) g
       = generate_monthly_returns rng asset_stats n None g"
  by (simp add: iteration_seed_def seed_generator_def)

section \<open>The strategy object across the batch\<close>

lemmas mc_defs = monte_carlo_state_def mc_start_def with_cash_def mc_body_def
  generate_monthly_returns_def seed_generator_def iteration_seed_def dataframe_rows_def
  simulate_portfolio_path_def path_final_state_def metrics_of_def

lemmas batch_defs = mean_generator_def flat_stats_def short_batch_def

text \<open>
  C2 as stated fails: the batch passes the one strategy object it received to every
  trajectory. A freshly built time-based strategy has no reference date, but the second
  iteration finds it with the reference date the first iteration recorded.
\<close>

theorem strategy_reused_counterexample:
  "strategy_last_date even_strategy = None
   \<and> strategy_at_iteration mean_generator short_batch flat_stats even_strategy () (Suc 0)
     = Some (TimeBased ((TimeBasedRebalance_init even_allocation ''annual'' (2 / 1000))
            \<lparr>last_rebalance_date := Some 0\<rparr>))"
  by (simp add: strategy_at_iteration_def mc_defs batch_defs path_defs example_defs Let_def)

lemma strategy_carried_refl: "strategy_carried strat strat"
  by (simp add: strategy_carried_def)

lemma strategy_carried_trans:
  "strategy_carried a b \<Longrightarrow> strategy_carried b c \<Longrightarrow> strategy_carried a c"
  by (auto simp: strategy_carried_def)

lemma should_rebalance_carried:
  "should_rebalance strat ca date pv = (due, strat') \<Longrightarrow> strategy_carried strat strat'"
  by (cases strat)
     (auto simp: strategy_carried_def TimeBased_should_rebalance_def Let_def
        split: option.splits if_splits prod.splits)

lemma month_body_carried:
  assumes "month_body p alloc row m s = Inr s'"
  shows "strategy_carried (strategy_obj s) (strategy_obj s')"
  using assms
proof (cases rule: month_body_Inr)
  case (withdrawn w c pv nav mw nav' due strat nav'' cost)
  from should_rebalance_carried [OF withdrawn(6)] show ?thesis
    unfolding withdrawn(8) by simp
next
  case (ruin w c pv nav mw)
  then show ?thesis by (simp add: strategy_carried_refl)
qed

lemma months_loop_carried:
  "months_loop p alloc rows k s0 = Inr s \<Longrightarrow> strategy_carried (strategy_obj s0) (strategy_obj s)"
proof (induction k arbitrary: s)
  case 0
  then show ?case by (simp add: strategy_carried_refl)
next
  case (Suc k)
  then obtain s1 where s1: "months_loop p alloc rows k s0 = Inr s1"
    and step: "(if broke s1 then Inr s1 else month_body p alloc (rows ! k) k s1) = Inr s"
    by (auto split: sum.splits)
  from Suc.IH [OF s1] have c1: "strategy_carried (strategy_obj s0) (strategy_obj s1)" .
  show ?case
  proof (cases "broke s1")
    case True
    with step c1 show ?thesis by simp
  next
    case False
    with step have "month_body p alloc (rows ! k) k s1 = Inr s" by simp
    from strategy_carried_trans [OF c1 month_body_carried [OF this]] show ?thesis .
  qed
qed

lemma simulate_portfolio_path_carried:
  assumes "simulate_portfolio_path p cfg strat rows = Inr (hist, metrics, strat')"
  shows "strategy_carried strat strat'"
proof -
  from assms obtain s where
    "months_loop p (allocation cfg) rows (length rows)
       (initial_state p (allocation cfg) (length rows) strat) = Inr s"
    and "strat' = strategy_obj s"
    by (auto simp: simulate_portfolio_path_def path_final_state_def split: sum.splits)
  with months_loop_carried [of p "allocation cfg" rows "length rows"
      "initial_state p (allocation cfg) (length rows) strat" s]
  show ?thesis by (simp add: initial_state_def)
qed

lemma mc_body_Inr:
  assumes "mc_body rng mp asset_stats i st = Inr st'"
  shows "\<exists>rows g' hist metrics.
           generate_monthly_returns rng asset_stats (n_months mp)
             (iteration_seed (random_seed mp) i) (generator st) = Inr (rows, g')
         \<and> simulate_portfolio_path (sim mp) (portfolio mp) (rebalance_strategy st) rows
             = Inr (hist, metrics, rebalance_strategy st')"
  using assms by (auto simp: mc_body_def split: sum.splits prod.splits)

lemma mc_loop_carried:
  assumes "mc_loop rng mp asset_stats i st0 = Inr st" "i \<le> j"
    and "mc_loop rng mp asset_stats j st0 = Inr st'"
  shows "strategy_carried (rebalance_strategy st) (rebalance_strategy st')"
  using assms(2,3)
proof (induction j arbitrary: st')
  case 0
  with assms(1) show ?case by (simp add: strategy_carried_refl)
next
  case (Suc j)
  show ?case
  proof (cases "i = Suc j")
    case True
    with assms(1) Suc.prems(2) show ?thesis by (simp add: strategy_carried_refl)
  next
    case False
    with Suc.prems(1) have le: "i \<le> j" by simp
    from Suc.prems(2) obtain st1 where st1: "mc_loop rng mp asset_stats j st0 = Inr st1"
      and body: "mc_body rng mp asset_stats j st1 = Inr st'"
      by (auto split: sum.splits)
    from mc_body_Inr [OF body] simulate_portfolio_path_carried
    have "strategy_carried (rebalance_strategy st1) (rebalance_strategy st')" by blast
    with Suc.IH [OF le st1] show ?thesis by (rule strategy_carried_trans)
  qed
qed

text \<open>
  C2, amended. Every iteration uses the one strategy object passed to
  \<open>monte_carlo_simulation\<close>: iteration 0 finds it as passed, and iteration \<open>i + 1\<close>
  finds it as the trajectory of iteration \<open>i\<close> left it. A threshold-based strategy is
  never changed; a time-based strategy's reference date, once set, is set at the start
  of every later iteration.
\<close>

theorem strategy_shared_across_iterations:
  assumes "monte_carlo_state rng mp asset_stats strat g i = Inr st"
    and "monte_carlo_state rng mp asset_stats strat g j = Inr st'"
    and "i \<le> j"
  shows "(i = 0 \<longrightarrow> rebalance_strategy st = strat)
       \<and> (j = Suc i \<longrightarrow>
            (\<exists>rows g' hist metrics.
               generate_monthly_returns rng (with_cash (allocation (portfolio mp)) asset_stats)
                 (n_months mp) (iteration_seed (random_seed mp) i) (generator st) = Inr (rows, g')
             \<and> simulate_portfolio_path (sim mp) (portfolio mp) (rebalance_strategy st) rows
                 = Inr (hist, metrics, rebalance_strategy st')))
       \<and> (strategy_last_date (rebalance_strategy st) \<noteq> None
            \<longrightarrow> strategy_last_date (rebalance_strategy st') \<noteq> None)
       \<and> (\<forall>t. strat = ThresholdBased t \<longrightarrow> rebalance_strategy st' = strat)"
proof (intro conjI)
  show "i = 0 \<longrightarrow> rebalance_strategy st = strat"
    using assms(1) by (auto simp: monte_carlo_state_def mc_start_def)
next
  show "j = Suc i \<longrightarrow>
            (\<exists>rows g' hist metrics.
               generate_monthly_returns rng (with_cash (allocation (portfolio mp)) asset_stats)
                 (n_months mp) (iteration_seed (random_seed mp) i) (generator st) = Inr (rows, g')
             \<and> simulate_portfolio_path (sim mp) (portfolio mp) (rebalance_strategy st) rows
                 = Inr (hist, metrics, rebalance_strategy st'))"
  proof
    assume "j = Suc i"
    with assms(1,2) have "mc_body rng mp (with_cash (allocation (portfolio mp)) asset_stats) i st = Inr st'"
      by (simp add: monte_carlo_state_def)
    then show "\<exists>rows g' hist metrics.
               generate_monthly_returns rng (with_cash (allocation (portfolio mp)) asset_stats)
                 (n_months mp) (iteration_seed (random_seed mp) i) (generator st) = Inr (rows, g')
             \<and> simulate_portfolio_path (sim mp) (portfolio mp) (rebalance_strategy st) rows
                 = Inr (hist, metrics, rebalance_strategy st')"
      by (rule mc_body_Inr)
  qed
next
  from mc_loop_carried [OF assms(1) [unfolded monte_carlo_state_def] assms(3)
      assms(2) [unfolded monte_carlo_state_def]]
  show "strategy_last_date (rebalance_strategy st) \<noteq> None
            \<longrightarrow> strategy_last_date (rebalance_strategy st') \<noteq> None"
    by (simp add: strategy_carried_def)
next
  have "mc_loop rng mp (with_cash (allocation (portfolio mp)) asset_stats) 0 (mc_start strat g)
          = Inr (mc_start strat g)" by simp
  from mc_loop_carried [OF this _ assms(2) [unfolded monte_carlo_state_def]]
  show "\<forall>t. strat = ThresholdBased t \<longrightarrow> rebalance_strategy st' = strat"
    by (simp add: strategy_carried_def mc_start_def)
qed

theorem strategy_shared_across_iterations_witness:
  "(\<exists>st st'. monte_carlo_state mean_generator short_batch flat_stats even_strategy () (Suc 0) = Inr st
     \<and> monte_carlo_state mean_generator short_batch flat_stats even_strategy () (Suc (Suc 0)) = Inr st'
     \<and> strategy_last_date (rebalance_strategy st) \<noteq> None
     \<and> strategy_last_date (rebalance_strategy st') \<noteq> None)
   \<and> (\<exists>st0 st1. monte_carlo_state mean_generator short_batch flat_stats
          (ThresholdBased (ThresholdBasedRebalance_init even_allocation (5 / 100) (2 / 1000))) () 0
          = Inr st0
     \<and> monte_carlo_state mean_generator short_batch flat_stats
          (ThresholdBased (ThresholdBasedRebalance_init even_allocation (5 / 100) (2 / 1000))) ()
          (Suc 0) = Inr st1
     \<and> rebalance_strategy st0
          = ThresholdBased (ThresholdBasedRebalance_init even_allocation (5 / 100) (2 / 1000))
     \<and> rebalance_strategy st1
          = ThresholdBased (ThresholdBasedRebalance_init even_allocation (5 / 100) (2 / 1000)))"
proof (rule conjI)
  have "\<exists>st. monte_carlo_state mean_generator short_batch flat_stats even_strategy () (Suc 0) = Inr st
     \<and> strategy_last_date (rebalance_strategy st) \<noteq> None"
    by (simp add: mc_defs batch_defs path_defs example_defs Let_def)
  then obtain st where
    r1: "monte_carlo_state mean_generator short_batch flat_stats even_strategy () (Suc 0) = Inr st"
    and set: "strategy_last_date (rebalance_strategy st) \<noteq> None" by blast
  have "\<exists>st'. monte_carlo_state mean_generator short_batch flat_stats even_strategy ()
          (Suc (Suc 0)) = Inr st'"
    by (simp add: mc_defs batch_defs path_defs example_defs Let_def)
  then obtain st' where
    r2: "monte_carlo_state mean_generator short_batch flat_stats even_strategy () (Suc (Suc 0)) = Inr st'"
    by blast
  have le: "Suc 0 \<le> Suc (Suc 0)" by simp
  from strategy_shared_across_iterations [OF r1 r2 le] set
  have "strategy_last_date (rebalance_strategy st') \<noteq> None" by blast
  with r1 r2 set
  show "\<exists>st st'. monte_carlo_state mean_generator short_batch flat_stats even_strategy () (Suc 0) = Inr st
     \<and> monte_carlo_state mean_generator short_batch flat_stats even_strategy () (Suc (Suc 0)) = Inr st'
     \<and> strategy_last_date (rebalance_strategy st) \<noteq> None
     \<and> strategy_last_date (rebalance_strategy st') \<noteq> None" by blast
next
  let ?th = "ThresholdBased (ThresholdBasedRebalance_init even_allocation (5 / 100) (2 / 1000))"
  have "\<exists>st0. monte_carlo_state mean_generator short_batch flat_stats ?th () 0 = Inr st0"
    by (simp add: monte_carlo_state_def)
  then obtain st0 where
    r0: "monte_carlo_state mean_generator short_batch flat_stats ?th () 0 = Inr st0" by blast
  have "\<exists>st1. monte_carlo_state mean_generator short_batch flat_stats ?th () (Suc 0) = Inr st1"
    by (simp add: mc_defs batch_defs path_defs example_defs ThresholdBased_should_rebalance_def
        ThresholdBasedRebalance_init_def Let_def)
  then obtain st1 where
    r1: "monte_carlo_state mean_generator short_batch flat_stats ?th () (Suc 0) = Inr st1" by blast
  have le: "0 \<le> Suc 0" by simp
  from strategy_shared_across_iterations [OF r0 r1 le]
  have "rebalance_strategy st0 = ?th" "rebalance_strategy st1 = ?th" by blast+
  with r0 r1
  show "\<exists>st0 st1. monte_carlo_state mean_generator short_batch flat_stats ?th () 0 = Inr st0
     \<and> monte_carlo_state mean_generator short_batch flat_stats ?th () (Suc 0) = Inr st1
     \<and> rebalance_strategy st0 = ?th \<and> rebalance_strategy st1 = ?th" by blast
qed

end
